theory Spec2Isabelle
  imports Main
begin

section \<open>Strings and POSIX path helpers used by \<open>responses.py\<close>\<close>

text \<open>
  Python's \<open>s.rsplit(sep, 1)\<close> for a one-character separator: the string is cut at the
  last occurrence of the separator; without any occurrence the result is the one-element
  list holding the whole string. The result is never empty.
\<close>

definition rsplit1 :: "char \<Rightarrow> string \<Rightarrow> string list" where
  "rsplit1 sep s =
     (let r = rev s;
          right = takeWhile (\<lambda>c. c \<noteq> sep) r;
          rest = dropWhile (\<lambda>c. c \<noteq> sep) r
      in case rest of
           [] \<Rightarrow> [s]
         | _ # left \<Rightarrow> [rev left, rev right])"

text \<open>Python's \<open>sep.join(parts)\<close>.\<close>

fun str_join :: "string \<Rightarrow> string list \<Rightarrow> string" where
  "str_join sep [] = []"
| "str_join sep [p] = p"
| "str_join sep (p # q # ps) = p @ sep @ str_join sep (q # ps)"

text \<open>
  \<open>posixpath.join(a, *p)\<close>: an absolute component replaces what was built so far, an empty
  prefix or one ending in a slash takes the component directly, otherwise a slash is put
  in between.
\<close>

definition path_join2 :: "string \<Rightarrow> string \<Rightarrow> string" where
  "path_join2 path b =
     (if b \<noteq> [] \<and> hd b = CHR ''/'' then b
      else if path = [] \<or> last path = CHR ''/'' then path @ b
      else path @ ''/'' @ b)"

definition os_path_join :: "string \<Rightarrow> string list \<Rightarrow> string" where
  "os_path_join a ps = foldl path_join2 a ps"

section \<open>The unique staged name of \<open>ApiFileResult.__init__\<close> (lines 63 to 69)\<close>

text \<open>
  \<open>uuid4().hex\<close> is a text of 32 lower-case hexadecimal digits; the token is an argument
  of the model, so that the randomness of the source is explicit.
\<close>

definition is_uuid_hex :: "string \<Rightarrow> bool" where
  "is_uuid_hex t \<longleftrightarrow> length t = 32 \<and> list_all (\<lambda>c. c \<in> set ''0123456789abcdef'') t"

text \<open>
  Lines 65 to 67: \<open>unique_attachment = attachment_name.rsplit('.', 1)\<close>,
  \<open>unique_attachment[0] += f'_{uuid4().hex}'\<close>,
  \<open>unique_attachment = '.'.join(unique_attachment)\<close>. The list from \<open>rsplit\<close> has one or
  two elements, so index 0 always exists; the empty case is kept only for totality.
\<close>

definition unique_attachment :: "string \<Rightarrow> string \<Rightarrow> string" where
  "unique_attachment attachment_name uuid_hex =
     (case rsplit1 CHR ''.'' attachment_name of
        [] \<Rightarrow> []
      | p # ps \<Rightarrow> str_join ''.'' ((p @ ''_'' @ uuid_hex) # ps))"

text \<open>Lines 58, 59 and 69: the staging directory and the staged path.\<close>

definition downloads_dir :: "string \<Rightarrow> string" where
  "downloads_dir root = os_path_join root [''static'', ''downloads'']"

definition tmp_file_path :: "string \<Rightarrow> string \<Rightarrow> string \<Rightarrow> string" where
  "tmp_file_path root attachment_name uuid_hex =
     os_path_join (downloads_dir root) [unique_attachment attachment_name uuid_hex]"

section \<open>Exceptions\<close>

text \<open>
  The exceptions that the code of \<open>responses.py\<close> raises, catches or lets through.
  \<open>TypeError\<close> carries its message. All of them derive from \<open>Exception\<close>, except
  \<open>SystemExiting\<close>, which stands for an exception derived from \<open>BaseException\<close> only
  (\<open>SystemExit\<close>, \<open>KeyboardInterrupt\<close>, \<open>GeneratorExit\<close>) and which a handler
  \<open>except Exception\<close> does not catch.
\<close>

datatype error =
    TypeError string
  | FileNotFoundError
  | PermissionError
  | FileExistsError
  | NotADirectoryError
  | IsADirectoryError
  | SameFileError
  | SystemExiting string


section \<open>The file system as the code sees it\<close>

text \<open>
  A small POSIX file system without symbolic links, permissions and metadata: a node is
  a regular file with its text or a directory, and nodes are found under the list of
  their path components, counted from the root, which is also the working directory.
\<close>

datatype node = File string | Dir

type_synonym filesystem = "string list \<Rightarrow> node option"

text \<open>Python's \<open>s.split(sep)\<close> for a one-character separator.\<close>

fun split_on :: "char \<Rightarrow> string \<Rightarrow> string list" where
  "split_on sep [] = [[]]"
| "split_on sep (c # cs) =
     (if c = sep then [] # split_on sep cs
      else (case split_on sep cs of
              [] \<Rightarrow> [[c]]
            | p # ps \<Rightarrow> (c # p) # ps))"

definition resolve_step :: "string list \<Rightarrow> string \<Rightarrow> string list" where
  "resolve_step acc c =
     (if c = [] \<or> c = ''.'' then acc
      else if c = ''..'' then butlast acc
      else acc @ [c])"

definition resolve :: "string \<Rightarrow> string list" where
  "resolve p = foldl resolve_step [] (split_on CHR ''/'' p)"

text \<open>A path that ends in a slash, in \<open>.\<close> or in \<open>..\<close> can only name a directory.\<close>

definition wants_dir :: "string \<Rightarrow> bool" where
  "wants_dir p = (let c = last (split_on CHR ''/'' p) in c = [] \<or> c = ''.'' \<or> c = ''..'')"

definition lookup :: "filesystem \<Rightarrow> string \<Rightarrow> node option" where
  "lookup fs p =
     (if p = [] then None
      else if resolve p = [] then Some Dir
      else fs (resolve p))"

text \<open>\<open>os.path.isfile\<close>, \<open>os.path.isdir\<close>, \<open>os.path.dirname\<close>, \<open>os.path.basename\<close>.\<close>

definition isfile :: "filesystem \<Rightarrow> string \<Rightarrow> bool" where
  "isfile fs p = (case lookup fs p of Some (File _) \<Rightarrow> \<not> wants_dir p | _ \<Rightarrow> False)"

definition isdir :: "filesystem \<Rightarrow> string \<Rightarrow> bool" where
  "isdir fs p = (lookup fs p = Some Dir)"

definition basename :: "string \<Rightarrow> string" where
  "basename p = rev (takeWhile (\<lambda>c. c \<noteq> CHR ''/'') (rev p))"

definition dirname :: "string \<Rightarrow> string" where
  "dirname p =
     (let head = rev (dropWhile (\<lambda>c. c \<noteq> CHR ''/'') (rev p))
      in if head \<noteq> [] \<and> \<not> list_all (\<lambda>c. c = CHR ''/'') head
         then rev (dropWhile (\<lambda>c. c = CHR ''/'') (rev head))
         else head)"

text \<open>
  \<open>os.makedirs(name)\<close> with \<open>exist_ok=False\<close>: the missing directories on the way are
  created one after the other, a regular file on the way stops the walk, and the last
  component must not exist yet. The directories created before a failure stay.
\<close>

fun mkdirs :: "filesystem \<Rightarrow> string list \<Rightarrow> string list \<Rightarrow> error option \<times> filesystem" where
  "mkdirs fs pre [] = (Some FileExistsError, fs)"
| "mkdirs fs pre [c] =
     (case fs (pre @ [c]) of
        None \<Rightarrow> (None, fs(pre @ [c] \<mapsto> Dir))
      | Some _ \<Rightarrow> (Some FileExistsError, fs))"
| "mkdirs fs pre (c # d # cs) =
     (case fs (pre @ [c]) of
        None \<Rightarrow> mkdirs (fs(pre @ [c] \<mapsto> Dir)) (pre @ [c]) (d # cs)
      | Some Dir \<Rightarrow> mkdirs fs (pre @ [c]) (d # cs)
      | Some (File _) \<Rightarrow> (Some NotADirectoryError, fs))"

definition makedirs :: "filesystem \<Rightarrow> string \<Rightarrow> error option \<times> filesystem" where
  "makedirs fs name =
     (if name = [] then (Some FileNotFoundError, fs) else mkdirs fs [] (resolve name))"

text \<open>
  \<open>open(path, 'w')\<close>: the parent must be a directory and the path must not be one; the
  file is created or truncated. \<open>write_text\<close> appends to an open file.
\<close>

definition parent_is_dir :: "filesystem \<Rightarrow> string list \<Rightarrow> bool" where
  "parent_is_dir fs cs = (butlast cs = [] \<or> fs (butlast cs) = Some Dir)"

definition open_w :: "filesystem \<Rightarrow> string \<Rightarrow> error option \<times> filesystem" where
  "open_w fs p =
     (if p = [] then (Some FileNotFoundError, fs)
      else if lookup fs p = Some Dir \<or> wants_dir p then (Some IsADirectoryError, fs)
      else if \<not> parent_is_dir fs (resolve p)
           then (case fs (butlast (resolve p)) of
                   Some (File _) \<Rightarrow> (Some NotADirectoryError, fs)
                 | _ \<Rightarrow> (Some FileNotFoundError, fs))
      else (None, fs(resolve p \<mapsto> File [])))"

definition write_text :: "filesystem \<Rightarrow> string \<Rightarrow> string \<Rightarrow> filesystem" where
  "write_text fs p s =
     (case fs (resolve p) of
        Some (File old) \<Rightarrow> fs(resolve p \<mapsto> File (old @ s))
      | _ \<Rightarrow> fs)"

definition read_text :: "filesystem \<Rightarrow> string \<Rightarrow> string option" where
  "read_text fs p = (case lookup fs p of Some (File s) \<Rightarrow> (if wants_dir p then None else Some s) | _ \<Rightarrow> None)"

text \<open>
  \<open>shutil.copy2(src, dst)\<close>: a destination that is a directory receives the file under
  the source's base name; copying a file onto itself is refused; otherwise the
  destination is opened for writing and receives the source's text.
\<close>

definition copy2 :: "filesystem \<Rightarrow> string \<Rightarrow> string \<Rightarrow> error option \<times> filesystem" where
  "copy2 fs src dst =
     (let dst' = (if isdir fs dst then path_join2 dst (basename src) else dst)
      in case read_text fs src of
           None \<Rightarrow> (Some FileNotFoundError, fs)
         | Some s \<Rightarrow>
             if resolve src = resolve dst' then (Some SameFileError, fs)
             else (case open_w fs dst' of
                     (Some e, fs') \<Rightarrow> (Some e, fs')
                   | (None, fs') \<Rightarrow> (None, write_text fs' dst' s)))"

text \<open>
  \<open>os.remove(path)\<close>. Beyond what the file system model decides, the operating system may
  refuse a removal (a directory that is not writable, a file in use); \<open>refused\<close> says so
  for the attempt at hand.
\<close>

definition os_remove :: "bool \<Rightarrow> filesystem \<Rightarrow> string \<Rightarrow> error option \<times> filesystem" where
  "os_remove refused fs p =
     (case lookup fs p of
        None \<Rightarrow> (Some FileNotFoundError, fs)
      | Some Dir \<Rightarrow> (Some IsADirectoryError, fs)
      | Some (File _) \<Rightarrow>
          if wants_dir p then (Some NotADirectoryError, fs)
          else if refused then (Some PermissionError, fs)
          else (None, fs(resolve p := None)))"

section \<open>Python values, truth values and texts\<close>

text \<open>
  The values that travel through \<open>ApiResult\<close> and through a job's outcome: \<open>None\<close>,
  booleans, integers, strings, lists, tuples and dictionaries (an association list in
  insertion order, keys being values themselves), and \<open>PObj\<close> for every other object (a
  set, a \<open>datetime\<close>, an instance of a class), of which the model keeps the text that
  \<open>repr\<close> returns and the truth value. A character is a code point below 256. Floating
  point numbers are left out.
\<close>

datatype pyval =
    PNone
  | PBool bool
  | PInt int
  | PStr string
  | PList "pyval list"
  | PTuple "pyval list"
  | PDict "(pyval \<times> pyval) list"
  | PObj string bool

text \<open>Truth value testing, as \<open>if x\<close> and \<open>x or y\<close> do it.\<close>

fun truthy :: "pyval \<Rightarrow> bool" where
  "truthy PNone = False"
| "truthy (PBool b) = b"
| "truthy (PInt i) = (i \<noteq> 0)"
| "truthy (PStr s) = (s \<noteq> [])"
| "truthy (PList xs) = (xs \<noteq> [])"
| "truthy (PTuple xs) = (xs \<noteq> [])"
| "truthy (PDict kvs) = (kvs \<noteq> [])"
| "truthy (PObj r t) = t"

text \<open>\<open>d.get(k)\<close>: the value under the key, \<open>None\<close> without one.\<close>

definition dict_get :: "(pyval \<times> pyval) list \<Rightarrow> pyval \<Rightarrow> pyval" where
  "dict_get kvs k = (case map_of kvs k of Some v \<Rightarrow> v | None \<Rightarrow> PNone)"

text \<open>
  Decimal and hexadecimal digits (a digit is below 10, or below 16, wherever these are
  used); \<open>str(i)\<close> of an integer.
\<close>

definition digit_char :: "nat \<Rightarrow> char" where
  "digit_char d = ''0123456789'' ! d"

fun digits :: "nat \<Rightarrow> string" where
  "digits n = (if n < 10 then [digit_char n] else digits (n div 10) @ [digit_char (n mod 10)])"

declare digits.simps [simp del]

definition int_str :: "int \<Rightarrow> string" where
  "int_str i = (if i < 0 then CHR ''-'' # digits (nat (- i)) else digits (nat i))"

definition hex_char :: "nat \<Rightarrow> char" where
  "hex_char d = ''0123456789abcdef'' ! d"

definition hex2 :: "nat \<Rightarrow> string" where
  "hex2 n = [hex_char (n div 16 mod 16), hex_char (n mod 16)]"

section \<open>\<open>json.dumps\<close> and \<open>json.dump\<close> with their default arguments\<close>

text \<open>
  A string is written between double quotes; with \<open>ensure_ascii\<close> every character outside
  the range from the space to the tilde is escaped, as are the double quote (code 0x22)
  and the backslash (code 0x5C).
\<close>

definition escape_char :: "char \<Rightarrow> string" where
  "escape_char c =
     (if c = CHR 0x22 then [CHR 0x5C, CHR 0x22]
      else if c = CHR 0x5C then [CHR 0x5C, CHR 0x5C]
      else if c = CHR 0x0A then [CHR 0x5C, CHR ''n'']
      else if c = CHR 0x0D then [CHR 0x5C, CHR ''r'']
      else if c = CHR 0x09 then [CHR 0x5C, CHR ''t'']
      else if c = CHR 0x08 then [CHR 0x5C, CHR ''b'']
      else if c = CHR 0x0C then [CHR 0x5C, CHR ''f'']
      else if (of_char c :: nat) < 32 \<or> 126 < (of_char c :: nat)
           then [CHR 0x5C, CHR ''u'', CHR ''0'', CHR ''0''] @ hex2 (of_char c)
      else [c])"

definition encode_str :: "string \<Rightarrow> string" where
  "encode_str s = CHR 0x22 # concat (map escape_char s) @ [CHR 0x22]"

text \<open>
  A dictionary key must be a string, an integer, a boolean or \<open>None\<close>; the last three are
  turned into text. Any other key is a \<open>TypeError\<close>.
\<close>

fun key_str :: "pyval \<Rightarrow> string option" where
  "key_str (PStr s) = Some s"
| "key_str (PBool b) = Some (if b then ''true'' else ''false'')"
| "key_str PNone = Some ''null''"
| "key_str (PInt i) = Some (int_str i)"
| "key_str _ = None"

text \<open>
  The encoder produces the text piece by piece. Its result is the text produced and
  whether it came to the end: at an object that JSON cannot express, or at a key that is
  not allowed, it stops with a \<open>TypeError\<close>, after the pieces before that point.
  Lists and tuples are both written as arrays; items are separated by a comma and a
  space, a key from its value by a colon and a space.
\<close>

fun encode :: "pyval \<Rightarrow> string \<times> bool"
  and encode_elems :: "bool \<Rightarrow> pyval list \<Rightarrow> string \<times> bool"
  and encode_items :: "bool \<Rightarrow> (pyval \<times> pyval) list \<Rightarrow> string \<times> bool" where
  "encode PNone = (''null'', True)"
| "encode (PBool b) = ((if b then ''true'' else ''false''), True)"
| "encode (PInt i) = (int_str i, True)"
| "encode (PStr s) = (encode_str s, True)"
| "encode (PList xs) =
     (if xs = [] then (''[]'', True)
      else (case encode_elems True xs of
              (s, True) \<Rightarrow> (''['' @ s @ '']'', True)
            | (s, False) \<Rightarrow> (''['' @ s, False)))"
| "encode (PTuple xs) =
     (if xs = [] then (''[]'', True)
      else (case encode_elems True xs of
              (s, True) \<Rightarrow> (''['' @ s @ '']'', True)
            | (s, False) \<Rightarrow> (''['' @ s, False)))"
| "encode (PDict kvs) =
     (if kvs = [] then (''{}'', True)
      else (case encode_items True kvs of
              (s, True) \<Rightarrow> (''{'' @ s @ ''}'', True)
            | (s, False) \<Rightarrow> (''{'' @ s, False)))"
| "encode (PObj r t) = ([], False)"
| "encode_elems first [] = ([], True)"
| "encode_elems first (x # xs) =
     (let sep = (if first then [] else '', '')
      in case encode x of
           (s, False) \<Rightarrow> (sep @ s, False)
         | (s, True) \<Rightarrow>
             (case encode_elems False xs of (s', ok) \<Rightarrow> (sep @ s @ s', ok)))"
| "encode_items first [] = ([], True)"
| "encode_items first ((k, v) # kvs) =
     (case key_str k of
        None \<Rightarrow> ([], False)
      | Some ks \<Rightarrow>
          (let sep = (if first then [] else '', '')
           in case encode v of
                (s, False) \<Rightarrow> (sep @ encode_str ks @ '': '' @ s, False)
              | (s, True) \<Rightarrow>
                  (case encode_items False kvs of
                     (s', ok) \<Rightarrow> (sep @ encode_str ks @ '': '' @ s @ s', ok))))"

definition not_serializable :: error where
  "not_serializable = TypeError ''Object is not JSON serializable''"

text \<open>\<open>json.dumps(obj)\<close> returns the whole text or raises.\<close>

definition json_dumps :: "pyval \<Rightarrow> error + string" where
  "json_dumps obj = (case encode obj of (s, True) \<Rightarrow> Inr s | (s, False) \<Rightarrow> Inl not_serializable)"

text \<open>
  \<open>json.dump(obj, f)\<close> writes each piece to the open file as it is produced, so what was
  produced before a failure is in the file.
\<close>

definition json_dump :: "pyval \<Rightarrow> filesystem \<Rightarrow> string \<Rightarrow> error option \<times> filesystem" where
  "json_dump obj fs fpath =
     (case encode obj of
        (s, True) \<Rightarrow> (None, write_text fs fpath s)
      | (s, False) \<Rightarrow> (Some not_serializable, write_text fs fpath s))"

section \<open>\<open>repr\<close>\<close>

text \<open>
  The text of a string: single quotes, unless the string holds a single quote (code
  0x27) and no double quote; the quote in use and the backslash are escaped, tab, line
  feed and carriage return have their short forms, and every other character that is
  not printable is written as \<open>\x\<close> and two hexadecimal digits.
\<close>

definition printable :: "char \<Rightarrow> bool" where
  "printable c = (let n = (of_char c :: nat) in (32 \<le> n \<and> n < 127) \<or> (161 \<le> n \<and> n \<noteq> 173))"

definition repr_char :: "char \<Rightarrow> char \<Rightarrow> string" where
  "repr_char quote c =
     (if c = quote \<or> c = CHR 0x5C then [CHR 0x5C, c]
      else if c = CHR 0x09 then [CHR 0x5C, CHR ''t'']
      else if c = CHR 0x0A then [CHR 0x5C, CHR ''n'']
      else if c = CHR 0x0D then [CHR 0x5C, CHR ''r'']
      else if \<not> printable c then [CHR 0x5C, CHR ''x''] @ hex2 (of_char c)
      else [c])"

definition str_repr :: "string \<Rightarrow> string" where
  "str_repr s =
     (let quote = (if CHR 0x27 \<in> set s \<and> CHR 0x22 \<notin> set s then CHR 0x22 else CHR 0x27)
      in quote # concat (map (repr_char quote) s) @ [quote])"

function (sequential) py_repr :: "pyval \<Rightarrow> string"
  and repr_elems :: "pyval list \<Rightarrow> string"
  and repr_items :: "(pyval \<times> pyval) list \<Rightarrow> string" where
  "py_repr PNone = ''None''"
| "py_repr (PBool b) = (if b then ''True'' else ''False'')"
| "py_repr (PInt i) = int_str i"
| "py_repr (PStr s) = str_repr s"
| "py_repr (PList xs) = ''['' @ repr_elems xs @ '']''"
| "py_repr (PTuple xs) = ''('' @ repr_elems xs @ (if length xs = 1 then '','' else []) @ '')''"
| "py_repr (PDict kvs) = ''{'' @ repr_items kvs @ ''}''"
| "py_repr (PObj r t) = r"
| "repr_elems [] = []"
| "repr_elems [x] = py_repr x"
| "repr_elems (x # y # xs) = py_repr x @ '', '' @ repr_elems (y # xs)"
| "repr_items [] = []"
| "repr_items [(k, v)] = py_repr k @ '': '' @ py_repr v"
| "repr_items ((k, v) # kv # kvs) = py_repr k @ '': '' @ py_repr v @ '', '' @ repr_items (kv # kvs)"
  by pat_completeness auto
termination
  by (relation "measure (\<lambda>a. case a of
         Inl v \<Rightarrow> 2 * size v + 1
       | Inr (Inl xs) \<Rightarrow> 2 * size (PList xs)
       | Inr (Inr kvs) \<Rightarrow> 2 * size (PDict kvs))") auto

section \<open>\<open>json.loads\<close>, the decoder that reads a response body back\<close>

text \<open>
  The decoder of the standard library with its default arguments, on the values of this
  model. Its result is \<open>None\<close> where \<open>json.loads\<close> raises, and also where the value read
  lies outside the model: a floating point number (among them \<open>NaN\<close> and \<open>Infinity\<close>), or a
  character beyond code 255 written as \<open>\uXXXX\<close>.
\<close>

definition is_ws :: "char \<Rightarrow> bool" where
  "is_ws c = (c = CHR '' '' \<or> c = CHR 0x09 \<or> c = CHR 0x0A \<or> c = CHR 0x0D)"

definition skip_ws :: "string \<Rightarrow> string" where
  "skip_ws s = dropWhile is_ws s"

definition is_digit :: "char \<Rightarrow> bool" where
  "is_digit c = (c \<in> set ''0123456789'')"

definition digit_val :: "char \<Rightarrow> nat" where
  "digit_val c =
     (case map_of [(CHR ''0'', 0), (CHR ''1'', 1), (CHR ''2'', 2), (CHR ''3'', 3), (CHR ''4'', 4),
                   (CHR ''5'', 5), (CHR ''6'', 6), (CHR ''7'', 7), (CHR ''8'', 8), (CHR ''9'', 9)] c of
        Some d \<Rightarrow> d
      | None \<Rightarrow> 0)"

definition hex_val :: "char \<Rightarrow> nat option" where
  "hex_val c =
     map_of [(CHR ''0'', 0), (CHR ''1'', 1), (CHR ''2'', 2), (CHR ''3'', 3), (CHR ''4'', 4),
             (CHR ''5'', 5), (CHR ''6'', 6), (CHR ''7'', 7), (CHR ''8'', 8), (CHR ''9'', 9),
             (CHR ''a'', 10), (CHR ''b'', 11), (CHR ''c'', 12), (CHR ''d'', 13), (CHR ''e'', 14),
             (CHR ''f'', 15), (CHR ''A'', 10), (CHR ''B'', 11), (CHR ''C'', 12), (CHR ''D'', 13),
             (CHR ''E'', 14), (CHR ''F'', 15)] c"

definition hex4 :: "char \<Rightarrow> char \<Rightarrow> char \<Rightarrow> char \<Rightarrow> nat option" where
  "hex4 a b c d =
     (case (hex_val a, hex_val b, hex_val c, hex_val d) of
        (Some x, Some y, Some z, Some w) \<Rightarrow> Some (((x * 16 + y) * 16 + z) * 16 + w)
      | _ \<Rightarrow> None)"

definition nat_of_digits :: "string \<Rightarrow> nat" where
  "nat_of_digits ds = foldl (\<lambda>a c. 10 * a + digit_val c) 0 ds"

text \<open>
  A number: an optional minus sign, then \<open>0\<close> or a digit from 1 to 9 followed by digits.
  With a fraction or an exponent it is a floating point number; a dot or an \<open>e\<close> that
  begins neither is an error at the next step of the decoder in any case.
\<close>

definition scan_int :: "string \<Rightarrow> (string \<times> string) option" where
  "scan_int s =
     (case s of
        [] \<Rightarrow> None
      | c # cs \<Rightarrow>
          if c = CHR ''0'' then Some ([c], cs)
          else if is_digit c then Some (c # takeWhile is_digit cs, dropWhile is_digit cs)
          else None)"

definition parse_number :: "string \<Rightarrow> (pyval \<times> string) option" where
  "parse_number s =
     (let neg = (s \<noteq> [] \<and> hd s = CHR ''-'');
          s1 = (if neg then tl s else s)
      in case scan_int s1 of
           None \<Rightarrow> None
         | Some (ds, rest) \<Rightarrow>
             if rest \<noteq> [] \<and> (hd rest = CHR ''.'' \<or> hd rest = CHR ''e'' \<or> hd rest = CHR ''E'')
             then None
             else Some (PInt (if neg then - int (nat_of_digits ds) else int (nat_of_digits ds)),
                        rest))"

text \<open>The character that follows a backslash in a string, \<open>u\<close> apart.\<close>

definition unescape :: "char \<Rightarrow> char option" where
  "unescape e =
     (if e = CHR 0x22 then Some (CHR 0x22)
      else if e = CHR 0x5C then Some (CHR 0x5C)
      else if e = CHR ''/'' then Some (CHR ''/'')
      else if e = CHR ''b'' then Some (CHR 0x08)
      else if e = CHR ''f'' then Some (CHR 0x0C)
      else if e = CHR ''n'' then Some (CHR 0x0A)
      else if e = CHR ''r'' then Some (CHR 0x0D)
      else if e = CHR ''t'' then Some (CHR 0x09)
      else None)"

text \<open>
  The characters of a string after its opening quote, up to the closing quote. A control
  character that is not escaped is an error.
\<close>

fun parse_chars :: "string \<Rightarrow> (string \<times> string) option" where
  "parse_chars [] = None"
| "parse_chars (c # cs) =
     (if c = CHR 0x22 then Some ([], cs)
      else if c = CHR 0x5C then
        (case cs of
           [] \<Rightarrow> None
         | e # cs' \<Rightarrow>
             if e = CHR ''u'' then
               (case cs' of
                  h1 # h2 # h3 # h4 # cs'' \<Rightarrow>
                    (case hex4 h1 h2 h3 h4 of
                       None \<Rightarrow> None
                     | Some n \<Rightarrow>
                         if n < 256
                         then (case parse_chars cs'' of
                                 None \<Rightarrow> None
                               | Some (s, r) \<Rightarrow> Some (char_of n # s, r))
                         else None)
                | _ \<Rightarrow> None)
             else
               (case unescape e of
                  None \<Rightarrow> None
                | Some ch \<Rightarrow>
                    (case parse_chars cs' of
                       None \<Rightarrow> None
                     | Some (s, r) \<Rightarrow> Some (ch # s, r))))
      else if (of_char c :: nat) < 32 then None
      else (case parse_chars cs of
              None \<Rightarrow> None
            | Some (s, r) \<Rightarrow> Some (c # s, r)))"

text \<open>One of the words \<open>null\<close>, \<open>true\<close>, \<open>false\<close>.\<close>

definition match_word :: "string \<Rightarrow> pyval \<Rightarrow> string \<Rightarrow> (pyval \<times> string) option" where
  "match_word w v s = (if take (length w) s = w then Some (v, drop (length w) s) else None)"



text \<open>
  Values, arrays and objects. The first argument bounds the number of nested calls;
  \<open>json_loads\<close> starts with the length of the text plus one, since every nested call
  comes after at least one more character of the text. Strings, words
  and numbers are read by \<open>parse_atom\<close>. After the opening bracket and after a comma
  white space is skipped; after a value the closing bracket ends the loop and a comma
  continues it; an object's member is a string, a colon and a value.
\<close>

definition parse_atom :: "string \<Rightarrow> (pyval \<times> string) option" where
  "parse_atom s =
     (case s of
        [] \<Rightarrow> None
      | c # cs \<Rightarrow>
          if c = CHR 0x22 then
            (case parse_chars cs of None \<Rightarrow> None | Some (t, r) \<Rightarrow> Some (PStr t, r))
          else if c = CHR ''n'' then match_word ''null'' PNone s
          else if c = CHR ''t'' then match_word ''true'' (PBool True) s
          else if c = CHR ''f'' then match_word ''false'' (PBool False) s
          else if c = CHR ''-'' \<or> is_digit c then parse_number s
          else None)"




section \<open>\<open>ApiResult\<close> and \<open>ApiException\<close> (lines 22 to 47)\<close>

record ApiResult =
  "value" :: pyval
  status :: int



definition ApiException :: "pyval \<Rightarrow> int \<Rightarrow> ApiResult" where
  "ApiException message st =
     \<lparr>value = PDict [(PStr ''success'', PBool False), (PStr ''message'', message)], status = st\<rparr>"

section \<open>\<open>ApiFileResult\<close> and its deferred cleanup (lines 50 to 100)\<close>

definition KEEP_FILE_FOR_SECONDS :: nat where
  "KEEP_FILE_FOR_SECONDS = 60"

definition MAX_CLEANUP_TRIES :: nat where
  "MAX_CLEANUP_TRIES = 5"

text \<open>
  The application as the code reads it from \<open>current_app\<close>; \<open>url_for('static', filename=...)\<close>
  belongs to the framework and is a field here.
\<close>

record app =
  root_path :: string
  static_folder :: string
  url_for_static :: "string \<Rightarrow> string"

text \<open>
  The world that a request acts on: the file system, the cleanup actions registered with
  \<open>after_this_request\<close> (each is known by the staged path that it holds), and a log of
  what the cleanup threads did.
\<close>

datatype event = Sleep nat | Remove string

record world =
  files :: filesystem
  after_request_hooks :: "string list"
  log :: "event list"

text \<open>Line 63: \<open>attachment_name or os.path.basename(filepath)\<close>.\<close>

definition display_name :: "string \<Rightarrow> string option \<Rightarrow> string" where
  "display_name filepath attachment_name =
     (case attachment_name of
        Some a \<Rightarrow> if a \<noteq> [] then a else basename filepath
      | None \<Rightarrow> basename filepath)"

text \<open>
  The constructor, inside a request. The result is the new object or the exception that
  leaves the constructor, together with the world as it is then.
\<close>

definition ApiFileResult ::
  "app \<Rightarrow> string \<Rightarrow> string \<Rightarrow> string option \<Rightarrow> int \<Rightarrow> world \<Rightarrow> (error + ApiResult) \<times> world" where
  "ApiFileResult ap uuid_hex filepath attachment_name st w =
     (if \<not> isfile (files w) filepath
      then (Inl (TypeError ''Tried to return a non-file as a file''), w)
      else
        (let downloads = downloads_dir (root_path ap)
         in case (if \<not> isdir (files w) downloads then makedirs (files w) downloads
                  else (None, files w)) of
              (Some e, fs1) \<Rightarrow> (Inl e, w\<lparr>files := fs1\<rparr>)
            | (None, fs1) \<Rightarrow>
                (let name = display_name filepath attachment_name;
                     unique = unique_attachment name uuid_hex;
                     tmp_file = tmp_file_path (root_path ap) name uuid_hex
                 in case copy2 fs1 filepath tmp_file of
                      (Some e, fs2) \<Rightarrow> (Inl e, w\<lparr>files := fs2\<rparr>)
                    | (None, fs2) \<Rightarrow>
                        (Inr \<lparr>value = PDict
                                [(PStr ''success'', PBool True),
                                 (PStr ''url'', PStr (url_for_static ap (''downloads/'' @ unique))),
                                 (PStr ''attachment_name'', PStr name),
                                 (PStr ''available_for_seconds'', PInt (int KEEP_FILE_FOR_SECONDS))],
                              status = st\<rparr>,
                         w\<lparr>files := fs2,
                           after_request_hooks := after_request_hooks w @ [tmp_file]\<rparr>))))"

text \<open>
  While the cleanup thread sleeps, other threads and processes may change the file
  system, and the operating system may refuse a removal: \<open>interference k\<close> is what
  happens to the file system during the sleep logged at position \<open>k\<close>, \<open>refused n\<close> whether
  the removal attempted by the call with \<open>tries = n\<close> is refused.
\<close>

record environment =
  interference :: "nat \<Rightarrow> filesystem \<Rightarrow> filesystem"
  refused :: "nat \<Rightarrow> bool"

definition sleep :: "environment \<Rightarrow> nat \<Rightarrow> world \<Rightarrow> world" where
  "sleep env secs w =
     w\<lparr>files := interference env (length (log w)) (files w), log := log w @ [Sleep secs]\<rparr>"

definition remove_attempt :: "environment \<Rightarrow> string \<Rightarrow> nat \<Rightarrow> world \<Rightarrow> error option \<times> world" where
  "remove_attempt env tmp_file tries w =
     (case os_remove (refused env tries) (files w) tmp_file of
        (r, fs') \<Rightarrow> (r, w\<lparr>files := fs', log := log w @ [Remove tmp_file]\<rparr>))"

text \<open>
  Lines 86 to 97. The result is the exception that ends the thread, if any, and the
  world afterwards.
\<close>

function cleanup_tempfile :: "environment \<Rightarrow> string \<Rightarrow> nat \<Rightarrow> world \<Rightarrow> error option \<times> world" where
  "cleanup_tempfile env tmp_file tries w =
     (if \<not> isfile (files w) tmp_file then (None, w)
      else
        (case remove_attempt env tmp_file tries (sleep env KEEP_FILE_FOR_SECONDS w) of
           (None, w1) \<Rightarrow> (None, w1)
         | (Some e, w1) \<Rightarrow>
             if e = PermissionError \<or> e = FileNotFoundError
             then (let w2 = sleep env 2 w1
                   in if tries < MAX_CLEANUP_TRIES
                      then cleanup_tempfile env tmp_file (tries + 1) w2
                      else (None, w2))
             else (Some e, w1)))"
  by pat_completeness auto
termination
  by (relation "measure (\<lambda>(env, tmp_file, tries, w). MAX_CLEANUP_TRIES - tries)") auto

declare cleanup_tempfile.simps [simp del]

text \<open>Line 99: the hook starts the thread with \<open>tries\<close> at its default 0.\<close>

definition cleanup :: "environment \<Rightarrow> string \<Rightarrow> world \<Rightarrow> error option \<times> world" where
  "cleanup env tmp_file w = cleanup_tempfile env tmp_file 0 w"

text \<open>How often the log shows an attempt to remove a path.\<close>

definition removal_attempts :: "string \<Rightarrow> event list \<Rightarrow> nat" where
  "removal_attempts p evs = length (filter (\<lambda>e. e = Remove p) evs)"

section \<open>\<open>ApiAsyncJob\<close> (lines 103 to 141)\<close>

text \<open>
  What the unit of work does when it is called: it returns a value, it raises an
  exception derived from \<open>Exception\<close>, or it raises one that is not (\<open>Exits\<close>). Of an
  exception the model keeps what \<open>traceback.format_exc()\<close> prints under its first line.
\<close>

datatype work_outcome = Returns pyval | Raises string | Exits string

definition format_exc :: "string \<Rightarrow> string" where
  "format_exc trace = ''Traceback (most recent call last):'' @ [CHR 0x0A] @ trace"

text \<open>Line 140: the path of a job's result file.\<close>

definition job_path :: "app \<Rightarrow> string \<Rightarrow> string" where
  "job_path ap job_id = os_path_join (static_folder ap) [''./temp/'' @ job_id @ ''.json'']"

text \<open>Lines 110 to 119: the \<open>try\<close> statement around the call of the unit of work.\<close>

definition job_data :: "work_outcome \<Rightarrow> error + (pyval \<times> pyval) list" where
  "job_data outcome =
     (case outcome of
        Returns x \<Rightarrow> Inr [(PStr ''status'', PStr ''complete''), (PStr ''data'', x)]
      | Raises trace \<Rightarrow>
          Inr [(PStr ''status'', PStr ''complete''), (PStr ''error'', PStr (format_exc trace))]
      | Exits e \<Rightarrow> Inl (SystemExiting e))"

text \<open>
  Lines 109 to 126: the body of the job's thread. The result is the exception that
  leaves it, if any, and the file system afterwards.
\<close>

definition async_target :: "app \<Rightarrow> string \<Rightarrow> work_outcome \<Rightarrow> filesystem \<Rightarrow> error option \<times> filesystem" where
  "async_target ap job_id outcome fs =
     (case job_data outcome of
        Inl e \<Rightarrow> (Some e, fs)
      | Inr data \<Rightarrow>
          if truthy (dict_get data (PStr ''data'')) \<or> truthy (dict_get data (PStr ''error''))
          then
            (let fpath = job_path ap job_id
             in case (if \<not> isdir fs (dirname fpath) then makedirs fs (dirname fpath)
                      else (None, fs)) of
                  (Some e, fs1) \<Rightarrow> (Some e, fs1)
                | (None, fs1) \<Rightarrow>
                    (case open_w fs1 fpath of
                       (Some e, fs2) \<Rightarrow> (Some e, fs2)
                     | (None, fs2) \<Rightarrow> json_dump (PDict data) fs2 fpath))
          else (None, fs))"

section \<open>Example inputs\<close>

text \<open>An application whose static folder is \<open>/s\<close>, used where a theorem is instantiated.\<close>

definition example_app :: app where
  "example_app =
     \<lparr>root_path = ''/srv/app'', static_folder = ''/s'', url_for_static = (\<lambda>f. ''/static/'' @ f)\<rparr>"

section \<open>Facts about the unique name\<close>

lemma rsplit1_no_sep:
  assumes "sep \<notin> set s"
  shows "rsplit1 sep s = [s]"
proof -
  have dw: "dropWhile (\<lambda>c. c \<noteq> sep) (rev s) = []"
    using assms by (auto simp: dropWhile_eq_Nil_conv)
  show ?thesis by (simp add: rsplit1_def Let_def dw)
qed

lemma rsplit1_last_sep:
  assumes "sep \<notin> set e"
  shows "rsplit1 sep (b @ sep # e) = [b, e]"
proof -
  have r: "rev (b @ sep # e) = rev e @ sep # rev b" by simp
  have t: "takeWhile (\<lambda>c. c \<noteq> sep) (rev e @ sep # rev b) = rev e"
    using assms by (subst takeWhile_append2) auto
  have d: "dropWhile (\<lambda>c. c \<noteq> sep) (rev e @ sep # rev b) = sep # rev b"
    using assms by (subst dropWhile_append2) auto
  show ?thesis by (simp add: rsplit1_def Let_def t d)
qed

lemma unique_attachment_no_dot:
  assumes "CHR ''.'' \<notin> set n"
  shows "unique_attachment n t = n @ ''_'' @ t"
  by (simp add: unique_attachment_def rsplit1_no_sep [OF assms])

lemma unique_attachment_dot:
  assumes "CHR ''.'' \<notin> set e"
  shows "unique_attachment (b @ CHR ''.'' # e) t = b @ ''_'' @ t @ CHR ''.'' # e"
  by (simp add: unique_attachment_def rsplit1_last_sep [OF assms])

lemma uuid_hex_chars: "is_uuid_hex t \<Longrightarrow> c \<in> set t \<Longrightarrow> c \<in> set ''0123456789abcdef''"
  unfolding is_uuid_hex_def list_all_iff by blast

lemma uuid_hex_no_dot: "is_uuid_hex t \<Longrightarrow> CHR ''.'' \<notin> set t"
proof
  assume "is_uuid_hex t" "CHR ''.'' \<in> set t"
  then have "CHR ''.'' \<in> set ''0123456789abcdef''" by (rule uuid_hex_chars)
  then show False by simp
qed

lemma uuid_hex_no_slash: "is_uuid_hex t \<Longrightarrow> CHR ''/'' \<notin> set t"
proof
  assume "is_uuid_hex t" "CHR ''/'' \<in> set t"
  then have "CHR ''/'' \<in> set ''0123456789abcdef''" by (rule uuid_hex_chars)
  then show False by simp
qed

lemma last_sep_unique:
  fixes sep :: char
  assumes "b1 @ sep # e1 = b2 @ sep # e2" "sep \<notin> set e1" "sep \<notin> set e2"
  shows "b1 = b2 \<and> e1 = e2"
proof -
  have "rsplit1 sep (b1 @ sep # e1) = rsplit1 sep (b2 @ sep # e2)"
    using assms(1) by simp
  then show ?thesis
    by (simp add: rsplit1_last_sep assms(2,3))
qed

lemma token_suffix_eq:
  assumes "a1 @ ''_'' @ t1 = a2 @ ''_'' @ t2" "length t1 = length t2"
  shows "t1 = t2"
  using assms by (simp add: append_eq_append_conv)

lemma unique_attachment_inj_token:
  assumes u1: "is_uuid_hex t1" and u2: "is_uuid_hex t2"
    and eq: "unique_attachment n1 t1 = unique_attachment n2 t2"
  shows "t1 = t2"
proof -
  have len: "length t1 = length t2"
    using u1 u2 by (simp add: is_uuid_hex_def)
  note nd1 = uuid_hex_no_dot [OF u1] and nd2 = uuid_hex_no_dot [OF u2]
  show ?thesis
  proof (cases "CHR ''.'' \<in> set n1")
    case False
    note f1 = this
    show ?thesis
    proof (cases "CHR ''.'' \<in> set n2")
      case False
      with f1 eq have "n1 @ ''_'' @ t1 = n2 @ ''_'' @ t2"
        by (simp add: unique_attachment_no_dot)
      then show ?thesis using len by (rule token_suffix_eq)
    next
      case True
      then obtain b e where n2: "n2 = b @ CHR ''.'' # e" and e: "CHR ''.'' \<notin> set e"
        by (meson split_list_last)
      have "CHR ''.'' \<in> set (unique_attachment n2 t2)"
        by (simp add: n2 unique_attachment_dot [OF e])
      moreover have "CHR ''.'' \<notin> set (unique_attachment n1 t1)"
        using f1 nd1 by (simp add: unique_attachment_no_dot)
      ultimately show ?thesis using eq by simp
    qed
  next
    case True
    then obtain b1 e1 where n1: "n1 = b1 @ CHR ''.'' # e1" and e1: "CHR ''.'' \<notin> set e1"
      by (meson split_list_last)
    show ?thesis
    proof (cases "CHR ''.'' \<in> set n2")
      case False
      have "CHR ''.'' \<in> set (unique_attachment n1 t1)"
        by (simp add: n1 unique_attachment_dot [OF e1])
      moreover have "CHR ''.'' \<notin> set (unique_attachment n2 t2)"
        using False nd2 by (simp add: unique_attachment_no_dot)
      ultimately show ?thesis using eq by simp
    next
      case True
      then obtain b2 e2 where n2: "n2 = b2 @ CHR ''.'' # e2" and e2: "CHR ''.'' \<notin> set e2"
        by (meson split_list_last)
      have "(b1 @ ''_'' @ t1) @ CHR ''.'' # e1 = (b2 @ ''_'' @ t2) @ CHR ''.'' # e2"
        using eq by (simp add: n1 n2 unique_attachment_dot e1 e2)
      then have "b1 @ ''_'' @ t1 = b2 @ ''_'' @ t2"
        using last_sep_unique e1 e2 by blast
      then show ?thesis using len by (rule token_suffix_eq)
    qed
  qed
qed

lemma path_join2_inj:
  assumes "path_join2 d x = path_join2 d y"
    and "x \<noteq> []" and "y \<noteq> []"
    and "(hd x = CHR ''/'') = (hd y = CHR ''/'')"
  shows "x = y"
  using assms by (auto simp: path_join2_def split: if_splits)

lemma unique_attachment_cases:
  obtains "CHR ''.'' \<notin> set n" "\<And>t. unique_attachment n t = n @ ''_'' @ t"
  | b e where "n = b @ CHR ''.'' # e" "CHR ''.'' \<notin> set e"
      "\<And>t. unique_attachment n t = b @ ''_'' @ t @ CHR ''.'' # e"
proof (cases "CHR ''.'' \<in> set n")
  case False
  then show ?thesis using that(1) by (simp add: unique_attachment_no_dot)
next
  case True
  then obtain b e where n: "n = b @ CHR ''.'' # e" and e: "CHR ''.'' \<notin> set e"
    by (meson split_list_last)
  show ?thesis
    by (rule that(2) [OF n e]) (simp add: n unique_attachment_dot [OF e])
qed

lemma unique_attachment_not_Nil: "unique_attachment n t \<noteq> []"
  by (cases n rule: unique_attachment_cases) simp_all

lemma unique_attachment_hd_token:
  "hd (unique_attachment n t1) = hd (unique_attachment n t2)"
proof (cases n rule: unique_attachment_cases)
  case 1
  then show ?thesis by (cases n) simp_all
next
  case (2 b e)
  then show ?thesis by (cases b) simp_all
qed

lemma unique_attachment_set:
  "set (unique_attachment n t) = set n \<union> set t \<union> {CHR ''_''}"
  by (cases n rule: unique_attachment_cases) auto

text \<open>
  Claim C8. Two constructions of \<open>ApiFileResult\<close> that draw different tokens from
  \<open>uuid4().hex\<close> never produce the same staged file name, whatever their attachment
  names are; in particular, for one and the same attachment name (and so for the same
  source path) under one application root, the two staged paths differ, and the same
  holds for any two attachment names that are plain file names (no slash).
\<close>

theorem staged_names_distinct:
  assumes "is_uuid_hex t1" and "is_uuid_hex t2" and "t1 \<noteq> t2"
  shows "unique_attachment n1 t1 \<noteq> unique_attachment n2 t2
       \<and> tmp_file_path root n t1 \<noteq> tmp_file_path root n t2
       \<and> (CHR ''/'' \<notin> set n1 \<and> CHR ''/'' \<notin> set n2 \<longrightarrow>
            tmp_file_path root n1 t1 \<noteq> tmp_file_path root n2 t2)"
proof (intro conjI impI)
  show names: "unique_attachment n1 t1 \<noteq> unique_attachment n2 t2" for n1 n2
    using unique_attachment_inj_token [OF assms(1,2)] assms(3) by blast
  show "tmp_file_path root n t1 \<noteq> tmp_file_path root n t2"
  proof
    assume "tmp_file_path root n t1 = tmp_file_path root n t2"
    then have "path_join2 (downloads_dir root) (unique_attachment n t1)
             = path_join2 (downloads_dir root) (unique_attachment n t2)"
      by (simp add: tmp_file_path_def os_path_join_def)
    then have "unique_attachment n t1 = unique_attachment n t2"
      by (rule path_join2_inj)
         (simp_all add: unique_attachment_not_Nil unique_attachment_hd_token [of n t1 t2])
    then show False using names by blast
  qed
  assume ns: "CHR ''/'' \<notin> set n1 \<and> CHR ''/'' \<notin> set n2"
  show "tmp_file_path root n1 t1 \<noteq> tmp_file_path root n2 t2"
  proof
    assume "tmp_file_path root n1 t1 = tmp_file_path root n2 t2"
    then have eq: "path_join2 (downloads_dir root) (unique_attachment n1 t1)
             = path_join2 (downloads_dir root) (unique_attachment n2 t2)"
      by (simp add: tmp_file_path_def os_path_join_def)
    have "CHR ''/'' \<notin> set (unique_attachment n1 t1)"
      using ns uuid_hex_no_slash [OF assms(1)] by (simp add: unique_attachment_set)
    then have r1: "hd (unique_attachment n1 t1) \<noteq> CHR ''/''"
      using unique_attachment_not_Nil [of n1 t1] hd_in_set by metis
    have "CHR ''/'' \<notin> set (unique_attachment n2 t2)"
      using ns uuid_hex_no_slash [OF assms(2)] by (simp add: unique_attachment_set)
    then have r2: "hd (unique_attachment n2 t2) \<noteq> CHR ''/''"
      using unique_attachment_not_Nil [of n2 t2] hd_in_set by metis
    have "unique_attachment n1 t1 = unique_attachment n2 t2"
      using eq by (rule path_join2_inj) (simp_all add: unique_attachment_not_Nil r1 r2)
    then show False using names by blast
  qed
qed

theorem staged_names_distinct_witness:
  "is_uuid_hex ''0123456789abcdef0123456789abcdef''
   \<and> is_uuid_hex ''fedcba9876543210fedcba9876543210''
   \<and> unique_attachment ''report.pdf'' ''0123456789abcdef0123456789abcdef''
       = ''report_0123456789abcdef0123456789abcdef.pdf''
   \<and> unique_attachment ''report.pdf'' ''0123456789abcdef0123456789abcdef''
       \<noteq> unique_attachment ''report.pdf'' ''fedcba9876543210fedcba9876543210''
   \<and> tmp_file_path ''/srv/app'' ''report.pdf'' ''0123456789abcdef0123456789abcdef''
       \<noteq> tmp_file_path ''/srv/app'' ''report.pdf'' ''fedcba9876543210fedcba9876543210''"
proof -
  have u1: "is_uuid_hex ''0123456789abcdef0123456789abcdef''"
    by (simp add: is_uuid_hex_def)
  have u2: "is_uuid_hex ''fedcba9876543210fedcba9876543210''"
    by (simp add: is_uuid_hex_def)
  have ne: "''0123456789abcdef0123456789abcdef'' \<noteq> ''fedcba9876543210fedcba9876543210''"
    by simp
  have v: "unique_attachment ''report.pdf'' ''0123456789abcdef0123456789abcdef''
       = ''report_0123456789abcdef0123456789abcdef.pdf''"
    by (simp add: unique_attachment_def rsplit1_def)
  show ?thesis
    using staged_names_distinct [OF u1 u2 ne, of "''report.pdf''" "''report.pdf''" "''/srv/app''" "''report.pdf''"]
      u1 u2 v by blast
qed

text \<open>
  Claim C9. An attachment name without any dot is not an error for the unique-name
  construction: \<open>rsplit\<close> yields the whole name as its single part, the token is appended
  to the end of the whole name, and different tokens give different staged names.
\<close>

theorem no_extension_name_unique:
  assumes "CHR ''.'' \<notin> set n"
  shows "rsplit1 CHR ''.'' n = [n]
       \<and> unique_attachment n t = n @ ''_'' @ t
       \<and> (t1 \<noteq> t2 \<longrightarrow> unique_attachment n t1 \<noteq> unique_attachment n t2)"
  using assms by (simp add: rsplit1_no_sep unique_attachment_no_dot)

theorem no_extension_name_unique_witness:
  "CHR ''.'' \<notin> set ''Makefile''
   \<and> unique_attachment ''Makefile'' ''0123456789abcdef0123456789abcdef''
       = ''Makefile_0123456789abcdef0123456789abcdef''
   \<and> unique_attachment ''Makefile'' ''0123456789abcdef0123456789abcdef''
       \<noteq> unique_attachment ''Makefile'' ''fedcba9876543210fedcba9876543210''"
proof -
  have h: "CHR ''.'' \<notin> set ''Makefile''" by simp
  have ne: "''0123456789abcdef0123456789abcdef'' \<noteq> ''fedcba9876543210fedcba9876543210''"
    by simp
  note c9 = no_extension_name_unique [OF h, of "''0123456789abcdef0123456789abcdef''"
      "''0123456789abcdef0123456789abcdef''" "''fedcba9876543210fedcba9876543210''"]
  from c9 have a: "unique_attachment ''Makefile'' ''0123456789abcdef0123456789abcdef''
      = ''Makefile'' @ ''_'' @ ''0123456789abcdef0123456789abcdef''"
    by blast
  from c9 ne have b: "unique_attachment ''Makefile'' ''0123456789abcdef0123456789abcdef''
      \<noteq> unique_attachment ''Makefile'' ''fedcba9876543210fedcba9876543210''"
    by blast
  from a have a': "unique_attachment ''Makefile'' ''0123456789abcdef0123456789abcdef''
      = ''Makefile_0123456789abcdef0123456789abcdef''"
    by simp
  show ?thesis using h a' b by blast
qed

section \<open>The deferred cleanup\<close>

lemma cleanup_tempfile_missing:
  "\<not> isfile (files w) tmp_file \<Longrightarrow> cleanup_tempfile env tmp_file tries w = (None, w)"
  by (subst cleanup_tempfile.simps) simp

lemma log_sleep: "log (sleep env secs w) = log w @ [Sleep secs]"
  by (simp add: sleep_def)

lemma log_remove_attempt:
  "remove_attempt env p n w = (r, w') \<Longrightarrow> log w' = log w @ [Remove p]"
  by (auto simp: remove_attempt_def split: prod.splits)

lemma removal_attempts_append:
  "removal_attempts p (xs @ ys) = removal_attempts p xs + removal_attempts p ys"
  by (simp add: removal_attempts_def)

text \<open>
  Whatever the environment does, a call with \<open>tries = n\<close> adds at most
  \<open>MAX_CLEANUP_TRIES - n + 1\<close> removal attempts to the log.
\<close>

lemma cleanup_tempfile_attempts_le:
  "cleanup_tempfile env p n w = (r, w') \<Longrightarrow>
   removal_attempts p (log w') \<le> removal_attempts p (log w) + Suc (MAX_CLEANUP_TRIES - n)"
proof (induction env p n w arbitrary: r w' rule: cleanup_tempfile.induct)
  case (1 env p n w)
  show ?case
  proof (cases "isfile (files w) p")
    case False
    with "1.prems" show ?thesis by (simp add: cleanup_tempfile_missing)
  next
    case True
    obtain e w1 where ra: "remove_attempt env p n (sleep env KEEP_FILE_FOR_SECONDS w) = (e, w1)"
      by (cases "remove_attempt env p n (sleep env KEEP_FILE_FOR_SECONDS w)")
    have l1: "log w1 = log w @ [Sleep KEEP_FILE_FOR_SECONDS, Remove p]"
      using log_remove_attempt [OF ra] by (simp add: log_sleep)
    have a1: "removal_attempts p (log w1) = removal_attempts p (log w) + 1"
      by (simp add: l1 removal_attempts_def)
    show ?thesis
    proof (cases e)
      case None
      with "1.prems" True ra have "w' = w1"
        by (subst (asm) cleanup_tempfile.simps) simp
      then show ?thesis using a1 by simp
    next
      case (Some err)
      show ?thesis
      proof (cases "err = PermissionError \<or> err = FileNotFoundError")
        case False
        with "1.prems" True ra Some have "w' = w1"
          by (subst (asm) cleanup_tempfile.simps) auto
        then show ?thesis using a1 by simp
      next
        case retry: True
        have a2: "removal_attempts p (log (sleep env 2 w1)) = removal_attempts p (log w) + 1"
          using a1 by (simp add: log_sleep removal_attempts_def)
        show ?thesis
        proof (cases "n < MAX_CLEANUP_TRIES")
          case False
          with "1.prems" True ra Some retry have "w' = sleep env 2 w1"
            by (subst (asm) cleanup_tempfile.simps) (auto simp: Let_def)
          then show ?thesis using a2 by simp
        next
          case lt: True
          with "1.prems" True ra Some retry
          have rec: "cleanup_tempfile env p (n + 1) (sleep env 2 w1) = (r, w')"
            by (subst (asm) cleanup_tempfile.simps) (auto simp: Let_def)
          have "removal_attempts p (log w')
              \<le> removal_attempts p (log (sleep env 2 w1)) + Suc (MAX_CLEANUP_TRIES - (n + 1))"
            using "1.IH" [OF _ ra [symmetric] Some retry refl lt rec] True by simp
          then show ?thesis using a2 lt by simp
        qed
      qed
    qed
  qed
qed

lemma os_remove_refused:
  "isfile fs p \<Longrightarrow> os_remove True fs p = (Some PermissionError, fs)"
  by (auto simp: isfile_def os_remove_def split: option.splits node.splits)

text \<open>
  When nothing else touches the file system and every removal is refused, a call with
  \<open>tries = n\<close> goes through \<open>MAX_CLEANUP_TRIES - n + 1\<close> rounds of sleeping for the
  retention window, attempting the removal and sleeping for two seconds.
\<close>

lemma cleanup_tempfile_always_refused:
  "\<forall>k fs. interference env k fs = fs \<Longrightarrow> \<forall>n. refused env n \<Longrightarrow> isfile (files w) p \<Longrightarrow>
    cleanup_tempfile env p n w =
      (None, w\<lparr>log := log w @ concat (replicate (Suc (MAX_CLEANUP_TRIES - n))
                                  [Sleep KEEP_FILE_FOR_SECONDS, Remove p, Sleep 2])\<rparr>)"
proof (induction env p n w rule: cleanup_tempfile.induct)
  case (1 env p n w)
  note quiet = "1.prems"(1) [rule_format] and ref = "1.prems"(2) [rule_format]
    and f = "1.prems"(3)
  have s1: "sleep env KEEP_FILE_FOR_SECONDS w = w\<lparr>log := log w @ [Sleep KEEP_FILE_FOR_SECONDS]\<rparr>"
    by (simp add: sleep_def quiet)
  have ra: "remove_attempt env p n (sleep env KEEP_FILE_FOR_SECONDS w)
      = (Some PermissionError, w\<lparr>log := log w @ [Sleep KEEP_FILE_FOR_SECONDS, Remove p]\<rparr>)"
    by (simp add: s1 remove_attempt_def ref os_remove_refused [OF f])
  define w2 where "w2 = w\<lparr>log := log w @ [Sleep KEEP_FILE_FOR_SECONDS, Remove p, Sleep 2]\<rparr>"
  have s2: "sleep env 2 (w\<lparr>log := log w @ [Sleep KEEP_FILE_FOR_SECONDS, Remove p]\<rparr>) = w2"
    by (simp add: sleep_def quiet w2_def)
  have f2: "isfile (files w2) p" using f by (simp add: w2_def)
  show ?case
  proof (cases "n < MAX_CLEANUP_TRIES")
    case False
    then have "MAX_CLEANUP_TRIES - n = 0" by simp
    then show ?thesis
      by (subst cleanup_tempfile.simps) (simp add: f ra s2 False w2_def)
  next
    case True
    have "cleanup_tempfile env p (n + 1) w2 =
        (None, w2\<lparr>log := log w2 @ concat (replicate (Suc (MAX_CLEANUP_TRIES - (n + 1)))
                                  [Sleep KEEP_FILE_FOR_SECONDS, Remove p, Sleep 2])\<rparr>)"
      using "1.IH" [OF _ ra [symmetric] refl _ s2 [symmetric] True "1.prems"(1,2) f2] f by simp
    moreover have "Suc (MAX_CLEANUP_TRIES - n) = Suc (Suc (MAX_CLEANUP_TRIES - (n + 1)))"
      using True by simp
    ultimately show ?thesis
      by (subst cleanup_tempfile.simps) (simp add: f ra s2 True w2_def)
  qed
qed

lemma isfile_example: "isfile [[''d'', ''f''] \<mapsto> File ''x''] ''/d/f''"
  by (simp add: isfile_def lookup_def resolve_def resolve_step_def wants_dir_def)

lemma not_isfile_example: "\<not> isfile Map.empty ''/d/f''"
  by (simp add: isfile_def lookup_def resolve_def resolve_step_def wants_dir_def)

text \<open>
  Claim C1, at the input where it fails. The staged file \<open>/d/f\<close> exists, nothing else
  touches the file system, and the operating system refuses every removal with
  \<open>PermissionError\<close>. The thread started by the hook sleeps for the retention window of 60
  seconds, attempts the removal, waits two seconds and calls itself again, which repeats
  the check and the 60 seconds; with \<open>MAX_CLEANUP_TRIES = 5\<close> and the test
  \<open>tries < MAX_CLEANUP_TRIES\<close> made after the attempt, the removal is attempted six times
  before the thread gives up without an exception.
\<close>

theorem cleanup_always_refused_six_attempts:
  "MAX_CLEANUP_TRIES = 5
   \<and> cleanup \<lparr>interference = (\<lambda>k fs. fs), refused = (\<lambda>n. True)\<rparr> ''/d/f''
        \<lparr>files = [[''d'', ''f''] \<mapsto> File ''x''], after_request_hooks = [''/d/f''], log = []\<rparr>
     = (None,
        \<lparr>files = [[''d'', ''f''] \<mapsto> File ''x''], after_request_hooks = [''/d/f''],
         log = [Sleep 60, Remove ''/d/f'', Sleep 2, Sleep 60, Remove ''/d/f'', Sleep 2,
                Sleep 60, Remove ''/d/f'', Sleep 2, Sleep 60, Remove ''/d/f'', Sleep 2,
                Sleep 60, Remove ''/d/f'', Sleep 2, Sleep 60, Remove ''/d/f'', Sleep 2]\<rparr>)
   \<and> removal_attempts ''/d/f''
        (log (snd (cleanup \<lparr>interference = (\<lambda>k fs. fs), refused = (\<lambda>n. True)\<rparr> ''/d/f''
           \<lparr>files = [[''d'', ''f''] \<mapsto> File ''x''], after_request_hooks = [''/d/f''],
            log = []\<rparr>))) = 6"
proof -
  let ?env = "\<lparr>interference = (\<lambda>k fs. fs), refused = (\<lambda>n. True)\<rparr>"
  let ?w = "\<lparr>files = [[''d'', ''f''] \<mapsto> File ''x''], after_request_hooks = [''/d/f''],
             log = []\<rparr>"
  have f: "isfile (files ?w) ''/d/f''" using isfile_example by simp
  have c: "cleanup ?env ''/d/f'' ?w
     = (None, ?w\<lparr>log := [Sleep 60, Remove ''/d/f'', Sleep 2, Sleep 60, Remove ''/d/f'', Sleep 2,
                Sleep 60, Remove ''/d/f'', Sleep 2, Sleep 60, Remove ''/d/f'', Sleep 2,
                Sleep 60, Remove ''/d/f'', Sleep 2, Sleep 60, Remove ''/d/f'', Sleep 2]\<rparr>)"
    unfolding cleanup_def
    by (subst cleanup_tempfile_always_refused [of ?env ?w "''/d/f''" 0, OF _ _ f])
       (simp_all add: MAX_CLEANUP_TRIES_def numeral_eq_Suc KEEP_FILE_FOR_SECONDS_def)
  show ?thesis
    by (simp add: c MAX_CLEANUP_TRIES_def removal_attempts_def)
qed

text \<open>
  Claim C10. If the staged file is no longer a regular file when the thread started by
  the after-response hook runs, the thread ends at once: it raises nothing, the log
  gains no sleep and no removal attempt, and the file system is what it was.
\<close>

theorem cleanup_without_staged_file:
  assumes "\<not> isfile (files w) tmp_file"
  shows "cleanup env tmp_file w = (None, w)
       \<and> log (snd (cleanup env tmp_file w)) = log w
       \<and> files (snd (cleanup env tmp_file w)) = files w"
  using assms by (simp add: cleanup_def cleanup_tempfile_missing)

theorem cleanup_without_staged_file_witness:
  "\<not> isfile (files \<lparr>files = Map.empty, after_request_hooks = [''/d/f''], log = []\<rparr>) ''/d/f''
   \<and> cleanup \<lparr>interference = (\<lambda>k fs. fs), refused = (\<lambda>n. False)\<rparr> ''/d/f''
        \<lparr>files = Map.empty, after_request_hooks = [''/d/f''], log = []\<rparr>
     = (None, \<lparr>files = Map.empty, after_request_hooks = [''/d/f''], log = []\<rparr>)"
proof -
  have h: "\<not> isfile (files \<lparr>files = Map.empty, after_request_hooks = [''/d/f''], log = []\<rparr>) ''/d/f''"
    using not_isfile_example by simp
  show ?thesis
    using cleanup_without_staged_file [OF h, of "\<lparr>interference = (\<lambda>k fs. fs), refused = (\<lambda>n. False)\<rparr>"] h
    by blast
qed

section \<open>The result envelope\<close>







section \<open>The temporary file server\<close>



text \<open>
  A construction that succeeds registers exactly one cleanup action, for the staged path
  built from the display name and the token, and reports the retention window.
\<close>

lemma ApiFileResult_success:
  assumes "ApiFileResult ap uuid_hex filepath attachment_name st w = (Inr r, w')"
  shows "after_request_hooks w' = after_request_hooks w
           @ [tmp_file_path (root_path ap) (display_name filepath attachment_name) uuid_hex]"
    and "status r = st"
    and "dict_get (case value r of PDict kvs \<Rightarrow> kvs | _ \<Rightarrow> []) (PStr ''available_for_seconds'')
           = PInt 60"
    and "isfile (files w) filepath"
  using assms
  by (auto simp: ApiFileResult_def Let_def dict_get_def KEEP_FILE_FOR_SECONDS_def
           split: if_splits prod.splits option.splits)

section \<open>The background job runner\<close>

lemma open_w_ok:
  "open_w fs p = (None, fs') \<Longrightarrow>
   p \<noteq> [] \<and> \<not> wants_dir p \<and> lookup fs p \<noteq> Some Dir \<and> fs' = fs(resolve p \<mapsto> File [])"
  by (auto simp: open_w_def split: if_splits option.splits node.splits)

lemma read_text_after_write:
  assumes "open_w fs p = (None, fs')"
  shows "read_text (write_text fs' p s) p = Some s"
proof -
  from open_w_ok [OF assms]
  have p: "p \<noteq> []" and w: "\<not> wants_dir p" and d: "lookup fs p \<noteq> Some Dir"
    and fs': "fs' = fs(resolve p \<mapsto> File [])"
    by blast+
  from p d have r: "resolve p \<noteq> []" by (auto simp: lookup_def)
  have "write_text fs' p s = fs'(resolve p \<mapsto> File s)"
    by (simp add: write_text_def fs')
  then show ?thesis
    using p w r by (simp add: read_text_def lookup_def)
qed




lemma json_dump_ok:
  "encode obj = (s, True) \<Longrightarrow> json_dump obj fs p = (None, write_text fs p s)"
  by (simp add: json_dump_def)

lemma json_dump_failed:
  "encode obj = (s, False) \<Longrightarrow> json_dump obj fs p = (Some not_serializable, write_text fs p s)"
  by (simp add: json_dump_def)

lemma encode_job_dict_ok:
  "encode x = (sx, True) \<Longrightarrow>
   encode (PDict [(PStr ''status'', PStr ''complete''), (PStr k, x)]) =
     (''{'' @ encode_str ''status'' @ '': '' @ encode_str ''complete'' @ '', ''
        @ encode_str k @ '': '' @ sx @ ''}'', True)"
  by simp

lemma encode_job_dict_failed:
  "encode x = (sx, False) \<Longrightarrow>
   encode (PDict [(PStr ''status'', PStr ''complete''), (PStr k, x)]) =
     (''{'' @ encode_str ''status'' @ '': '' @ encode_str ''complete'' @ '', ''
        @ encode_str k @ '': '' @ sx, False)"
  by simp

lemma json_dumps_encode: "json_dumps x = Inr s \<longleftrightarrow> encode x = (s, True)"
  by (auto simp: json_dumps_def split: prod.splits bool.splits)

lemma async_target_guard_open:
  assumes "job_data outcome = Inr data"
    and "truthy (dict_get data (PStr ''data'')) \<or> truthy (dict_get data (PStr ''error''))"
    and "(if \<not> isdir fs (dirname (job_path ap job_id))
          then makedirs fs (dirname (job_path ap job_id)) else (None, fs)) = (None, fs1)"
    and "open_w fs1 (job_path ap job_id) = (None, fs2)"
  shows "async_target ap job_id outcome fs = json_dump (PDict data) fs2 (job_path ap job_id)"
  using assms(2) by (simp add: async_target_def assms(1,3,4) Let_def)

lemma async_target_guard_closed:
  assumes "job_data outcome = Inr data"
    and "\<not> truthy (dict_get data (PStr ''data''))"
    and "\<not> truthy (dict_get data (PStr ''error''))"
  shows "async_target ap job_id outcome fs = (None, fs)"
  using assms by (simp add: async_target_def)


lemma dict_get_job_data [simp]:
  "dict_get [(PStr ''status'', PStr ''complete''), (PStr ''data'', x)] (PStr ''data'') = x"
  "dict_get [(PStr ''status'', PStr ''complete''), (PStr ''data'', x)] (PStr ''error'') = PNone"
  "dict_get [(PStr ''status'', PStr ''complete''), (PStr ''error'', y)] (PStr ''data'') = PNone"
  "dict_get [(PStr ''status'', PStr ''complete''), (PStr ''error'', y)] (PStr ''error'') = y"
  by (simp_all add: dict_get_def)

lemma example_job_path: "job_path example_app ''j1'' = ''/s/./temp/j1.json''"
  by (simp add: job_path_def example_app_def os_path_join_def path_join2_def)

lemma example_dirname: "dirname ''/s/./temp/j1.json'' = ''/s/./temp''"
  by (simp add: dirname_def)

lemma example_resolve:
  "resolve ''/s/./temp'' = [''s'', ''temp'']"
  "resolve ''/s/./temp/j1.json'' = [''s'', ''temp'', ''j1.json'']"
  by (simp_all add: resolve_def resolve_step_def)

lemma example_wants_dir: "\<not> wants_dir ''/s/./temp/j1.json''"
  by (simp add: wants_dir_def)

lemma example_makedirs:
  "(if \<not> isdir Map.empty (dirname ''/s/./temp/j1.json'')
    then makedirs Map.empty (dirname ''/s/./temp/j1.json'') else (None, Map.empty))
   = (None, [[''s''] \<mapsto> Dir, [''s'', ''temp''] \<mapsto> Dir])"
  by (simp add: example_dirname isdir_def lookup_def makedirs_def example_resolve)

lemma example_open_w:
  "open_w [[''s''] \<mapsto> Dir, [''s'', ''temp''] \<mapsto> Dir] ''/s/./temp/j1.json''
   = (None, [[''s''] \<mapsto> Dir, [''s'', ''temp''] \<mapsto> Dir,
             [''s'', ''temp'', ''j1.json''] \<mapsto> File []])"
  by (simp add: open_w_def lookup_def example_resolve example_wants_dir parent_is_dir_def)

lemma example_makedirs_blocked:
  "(if \<not> isdir [[''s''] \<mapsto> File ''x''] (dirname ''/s/./temp/j1.json'')
    then makedirs [[''s''] \<mapsto> File ''x''] (dirname ''/s/./temp/j1.json'')
    else (None, [[''s''] \<mapsto> File ''x'']))
   = (Some NotADirectoryError, [[''s''] \<mapsto> File ''x''])"
  by (simp add: example_dirname isdir_def lookup_def makedirs_def example_resolve)

lemma int_str_7: "int_str 7 = ''7''"
  by (simp add: int_str_def digits.simps digit_char_def)

lemma int_str_0: "int_str 0 = ''0''"
  by (simp add: int_str_def digits.simps digit_char_def)

text \<open>
  Claim C2, as amended. When neither the \<open>data\<close> nor the \<open>error\<close> entry of the outcome
  object is truthy, the job's thread writes nothing: the file system stays as it is.
  For every other outcome whose object \<open>json.dump\<close> can encode, and provided that creating
  the directory and opening the file raise nothing, the thread writes the JSON text of the
  outcome object to the path derived from the job identifier.
\<close>

theorem job_result_written_when_truthy:
  assumes "job_data outcome = Inr data"
  shows "(\<not> truthy (dict_get data (PStr ''data'')) \<and> \<not> truthy (dict_get data (PStr ''error''))
            \<longrightarrow> async_target ap job_id outcome fs = (None, fs))
       \<and> ((truthy (dict_get data (PStr ''data'')) \<or> truthy (dict_get data (PStr ''error'')))
            \<and> json_dumps (PDict data) = Inr s
            \<and> (if \<not> isdir fs (dirname (job_path ap job_id))
                 then makedirs fs (dirname (job_path ap job_id)) else (None, fs)) = (None, fs1)
            \<and> open_w fs1 (job_path ap job_id) = (None, fs2)
            \<longrightarrow> async_target ap job_id outcome fs = (None, write_text fs2 (job_path ap job_id) s)
                \<and> read_text (write_text fs2 (job_path ap job_id) s) (job_path ap job_id) = Some s)"
proof (intro conjI impI)
  assume "\<not> truthy (dict_get data (PStr ''data'')) \<and> \<not> truthy (dict_get data (PStr ''error''))"
  then show "async_target ap job_id outcome fs = (None, fs)"
    using async_target_guard_closed [OF assms] by blast
next
  assume h: "(truthy (dict_get data (PStr ''data'')) \<or> truthy (dict_get data (PStr ''error'')))
            \<and> json_dumps (PDict data) = Inr s
            \<and> (if \<not> isdir fs (dirname (job_path ap job_id))
                 then makedirs fs (dirname (job_path ap job_id)) else (None, fs)) = (None, fs1)
            \<and> open_w fs1 (job_path ap job_id) = (None, fs2)"
  then have t: "truthy (dict_get data (PStr ''data'')) \<or> truthy (dict_get data (PStr ''error''))"
    and e: "encode (PDict data) = (s, True)"
    and mk: "(if \<not> isdir fs (dirname (job_path ap job_id))
                 then makedirs fs (dirname (job_path ap job_id)) else (None, fs)) = (None, fs1)"
    and op: "open_w fs1 (job_path ap job_id) = (None, fs2)"
    by (simp_all add: json_dumps_encode)
  show "async_target ap job_id outcome fs = (None, write_text fs2 (job_path ap job_id) s)"
    using async_target_guard_open [OF assms t mk op] by (simp add: json_dump_ok [OF e])
  show "read_text (write_text fs2 (job_path ap job_id) s) (job_path ap job_id) = Some s"
    using op by (rule read_text_after_write)
qed

theorem job_result_written_when_truthy_witness:
  "job_data (Returns (PInt 0)) = Inr [(PStr ''status'', PStr ''complete''), (PStr ''data'', PInt 0)]
   \<and> async_target example_app ''j1'' (Returns (PInt 0)) Map.empty = (None, Map.empty)
   \<and> job_data (Returns (PInt 7)) = Inr [(PStr ''status'', PStr ''complete''), (PStr ''data'', PInt 7)]
   \<and> json_dumps (PDict [(PStr ''status'', PStr ''complete''), (PStr ''data'', PInt 7)])
       = Inr (''{'' @ encode_str ''status'' @ '': '' @ encode_str ''complete'' @ '', ''
                @ encode_str ''data'' @ '': 7}'')
   \<and> fst (async_target example_app ''j1'' (Returns (PInt 7)) Map.empty) = None
   \<and> read_text (snd (async_target example_app ''j1'' (Returns (PInt 7)) Map.empty))
        ''/s/./temp/j1.json''
       = Some (''{'' @ encode_str ''status'' @ '': '' @ encode_str ''complete'' @ '', ''
                @ encode_str ''data'' @ '': 7}'')"
proof -
  let ?doc = "''{'' @ encode_str ''status'' @ '': '' @ encode_str ''complete'' @ '', ''
                @ encode_str ''data'' @ '': 7}''"
  let ?fs1 = "[[''s''] \<mapsto> Dir, [''s'', ''temp''] \<mapsto> Dir]"
  let ?fs2 = "[[''s''] \<mapsto> Dir, [''s'', ''temp''] \<mapsto> Dir, [''s'', ''temp'', ''j1.json''] \<mapsto> File []]"
  have j0: "job_data (Returns (PInt 0)) = Inr [(PStr ''status'', PStr ''complete''), (PStr ''data'', PInt 0)]"
    by (simp add: job_data_def)
  have j7: "job_data (Returns (PInt 7)) = Inr [(PStr ''status'', PStr ''complete''), (PStr ''data'', PInt 7)]"
    by (simp add: job_data_def)
  have d: "json_dumps (PDict [(PStr ''status'', PStr ''complete''), (PStr ''data'', PInt 7)]) = Inr ?doc"
    by (simp add: json_dumps_def int_str_7)
  have a: "async_target example_app ''j1'' (Returns (PInt 0)) Map.empty = (None, Map.empty)"
    using job_result_written_when_truthy [OF j0, of example_app "''j1''" Map.empty] by simp
  have mk: "(if \<not> isdir Map.empty (dirname (job_path example_app ''j1''))
             then makedirs Map.empty (dirname (job_path example_app ''j1''))
             else (None, Map.empty)) = (None, ?fs1)"
    using example_makedirs by (simp only: example_job_path)
  have op: "open_w ?fs1 (job_path example_app ''j1'') = (None, ?fs2)"
    using example_open_w by (simp only: example_job_path)
  have t: "truthy (dict_get [(PStr ''status'', PStr ''complete''), (PStr ''data'', PInt 7)] (PStr ''data''))"
    by simp
  from job_result_written_when_truthy [OF j7, of example_app "''j1''" Map.empty ?doc ?fs1 ?fs2]
    t d mk op
  have b: "async_target example_app ''j1'' (Returns (PInt 7)) Map.empty
             = (None, write_text ?fs2 (job_path example_app ''j1'') ?doc)
         \<and> read_text (write_text ?fs2 (job_path example_app ''j1'') ?doc)
               (job_path example_app ''j1'') = Some ?doc"
    by blast
  then have b1: "fst (async_target example_app ''j1'' (Returns (PInt 7)) Map.empty) = None"
    and b2: "read_text (snd (async_target example_app ''j1'' (Returns (PInt 7)) Map.empty))
               ''/s/./temp/j1.json'' = Some ?doc"
    by (simp_all add: example_job_path)
  show ?thesis using j0 a j7 d b1 b2 by blast
qed

text \<open>
  Claim C2 as it is stated fails for a truthy result that JSON cannot express, here a
  non-empty set: \<open>json.dump\<close> raises \<open>TypeError\<close> in the thread after the beginning of the
  document has reached the file, so the result file holds a fragment and not the outcome
  object. It also fails when the directory cannot be created, here because the static
  folder \<open>/s\<close> is a regular file: the thread ends with \<open>NotADirectoryError\<close> and no result
  file exists.
\<close>

theorem job_result_not_persisted:
  "truthy (PObj ''{1, 2}'' True)
   \<and> json_dumps (PDict [(PStr ''status'', PStr ''complete''), (PStr ''data'', PObj ''{1, 2}'' True)])
       = Inl not_serializable
   \<and> fst (async_target example_app ''j1'' (Returns (PObj ''{1, 2}'' True)) Map.empty)
       = Some not_serializable
   \<and> read_text (snd (async_target example_app ''j1'' (Returns (PObj ''{1, 2}'' True)) Map.empty))
        (job_path example_app ''j1'')
       = Some (''{'' @ encode_str ''status'' @ '': '' @ encode_str ''complete'' @ '', ''
                 @ encode_str ''data'' @ '': '')
   \<and> truthy (PInt 7)
   \<and> async_target example_app ''j1'' (Returns (PInt 7)) [[''s''] \<mapsto> File ''x'']
       = (Some NotADirectoryError, [[''s''] \<mapsto> File ''x''])
   \<and> read_text [[''s''] \<mapsto> File ''x''] (job_path example_app ''j1'') = None"
proof -
  let ?part = "''{'' @ encode_str ''status'' @ '': '' @ encode_str ''complete'' @ '', ''
                 @ encode_str ''data'' @ '': ''"
  let ?data = "[(PStr ''status'', PStr ''complete''), (PStr ''data'', PObj ''{1, 2}'' True)]"
  let ?fs1 = "[[''s''] \<mapsto> Dir, [''s'', ''temp''] \<mapsto> Dir]"
  let ?fs2 = "[[''s''] \<mapsto> Dir, [''s'', ''temp''] \<mapsto> Dir, [''s'', ''temp'', ''j1.json''] \<mapsto> File []]"
  have e: "encode (PDict ?data) = (?part, False)"
    by simp
  have d: "json_dumps (PDict ?data) = Inl not_serializable"
    by (simp add: json_dumps_def)
  have jd: "job_data (Returns (PObj ''{1, 2}'' True)) = Inr ?data"
    by (simp add: job_data_def)
  have t: "truthy (dict_get ?data (PStr ''data'')) \<or> truthy (dict_get ?data (PStr ''error''))"
    by simp
  have mk: "(if \<not> isdir Map.empty (dirname (job_path example_app ''j1''))
             then makedirs Map.empty (dirname (job_path example_app ''j1''))
             else (None, Map.empty)) = (None, ?fs1)"
    using example_makedirs by (simp only: example_job_path)
  have op: "open_w ?fs1 (job_path example_app ''j1'') = (None, ?fs2)"
    using example_open_w by (simp only: example_job_path)
  have a: "async_target example_app ''j1'' (Returns (PObj ''{1, 2}'' True)) Map.empty
      = (Some not_serializable, write_text ?fs2 (job_path example_app ''j1'') ?part)"
    using async_target_guard_open [OF jd t mk op] by (simp only: json_dump_failed [OF e])
  have r: "read_text (write_text ?fs2 (job_path example_app ''j1'') ?part)
             (job_path example_app ''j1'') = Some ?part"
    using op by (rule read_text_after_write)
  have b: "async_target example_app ''j1'' (Returns (PInt 7)) [[''s''] \<mapsto> File ''x'']
       = (Some NotADirectoryError, [[''s''] \<mapsto> File ''x''])"
    using example_makedirs_blocked
    by (simp add: async_target_def job_data_def example_job_path)
  have n: "read_text [[''s''] \<mapsto> File ''x''] (job_path example_app ''j1'') = None"
    by (simp add: example_job_path read_text_def lookup_def example_resolve)
  show ?thesis
    using d a r b n by simp
qed





text \<open>
  Claim C6, as amended. When the unit of work returns a truthy value \<open>X\<close> that
  \<open>json.dumps\<close> can encode, and creating the directory and opening the file raise nothing,
  the result file holds exactly the JSON text of \<open>{"status": "complete", "data": X}\<close>. The
  path of that file is the static folder joined with \<open>./temp/\<close>, the job identifier and
  \<open>.json\<close>.
\<close>

theorem job_truthy_result_file:
  assumes "truthy x" and "json_dumps x = Inr sx"
    and "(if \<not> isdir fs (dirname (job_path ap job_id))
          then makedirs fs (dirname (job_path ap job_id)) else (None, fs)) = (None, fs1)"
    and "open_w fs1 (job_path ap job_id) = (None, fs2)"
  shows "(let doc = ''{'' @ encode_str ''status'' @ '': '' @ encode_str ''complete'' @ '', ''
                      @ encode_str ''data'' @ '': '' @ sx @ ''}'';
              fpath = job_path ap job_id
          in json_dumps (PDict [(PStr ''status'', PStr ''complete''), (PStr ''data'', x)]) = Inr doc
           \<and> async_target ap job_id (Returns x) fs = (None, write_text fs2 fpath doc)
           \<and> read_text (write_text fs2 fpath doc) fpath = Some doc
           \<and> fpath = (if static_folder ap = [] \<or> last (static_folder ap) = CHR ''/''
                       then static_folder ap @ ''./temp/'' @ job_id @ ''.json''
                       else static_folder ap @ ''/./temp/'' @ job_id @ ''.json''))"
proof -
  let ?data = "[(PStr ''status'', PStr ''complete''), (PStr ''data'', x)]"
  let ?doc = "''{'' @ encode_str ''status'' @ '': '' @ encode_str ''complete'' @ '', ''
                      @ encode_str ''data'' @ '': '' @ sx @ ''}''"
  let ?fpath = "job_path ap job_id"
  have ex: "encode x = (sx, True)"
    using assms(2) by (simp add: json_dumps_encode)
  have e: "encode (PDict ?data) = (?doc, True)"
    using ex by (rule encode_job_dict_ok)
  have d: "json_dumps (PDict ?data) = Inr ?doc"
    using e by (simp add: json_dumps_encode)
  have jd: "job_data (Returns x) = Inr ?data"
    by (simp add: job_data_def)
  have t: "truthy (dict_get ?data (PStr ''data'')) \<or> truthy (dict_get ?data (PStr ''error''))"
    using assms(1) by simp
  have a: "async_target ap job_id (Returns x) fs = (None, write_text fs2 ?fpath ?doc)"
    using async_target_guard_open [OF jd t assms(3,4)] by (simp add: json_dump_ok [OF e])
  have r: "read_text (write_text fs2 ?fpath ?doc) ?fpath = Some ?doc"
    using assms(4) by (rule read_text_after_write)
  have p: "?fpath = (if static_folder ap = [] \<or> last (static_folder ap) = CHR ''/''
                       then static_folder ap @ ''./temp/'' @ job_id @ ''.json''
                       else static_folder ap @ ''/./temp/'' @ job_id @ ''.json'')"
    by (simp add: job_path_def os_path_join_def path_join2_def)
  show ?thesis
    unfolding Let_def using d a r p by blast
qed

theorem job_truthy_result_file_witness:
  "truthy (PInt 7) \<and> json_dumps (PInt 7) = Inr ''7''
   \<and> job_path example_app ''j1'' = ''/s/./temp/j1.json''
   \<and> fst (async_target example_app ''j1'' (Returns (PInt 7)) Map.empty) = None
   \<and> read_text (snd (async_target example_app ''j1'' (Returns (PInt 7)) Map.empty))
        ''/s/./temp/j1.json''
     = Some (''{'' @ encode_str ''status'' @ '': '' @ encode_str ''complete'' @ '', ''
               @ encode_str ''data'' @ '': '' @ ''7'' @ ''}'')"
proof -
  let ?doc = "''{'' @ encode_str ''status'' @ '': '' @ encode_str ''complete'' @ '', ''
                      @ encode_str ''data'' @ '': '' @ ''7'' @ ''}''"
  let ?fs1 = "[[''s''] \<mapsto> Dir, [''s'', ''temp''] \<mapsto> Dir]"
  let ?fs2 = "[[''s''] \<mapsto> Dir, [''s'', ''temp''] \<mapsto> Dir, [''s'', ''temp'', ''j1.json''] \<mapsto> File []]"
  have t: "truthy (PInt 7)" by simp
  have d: "json_dumps (PInt 7) = Inr ''7''"
    by (simp add: json_dumps_def int_str_7)
  have mk: "(if \<not> isdir Map.empty (dirname (job_path example_app ''j1''))
             then makedirs Map.empty (dirname (job_path example_app ''j1''))
             else (None, Map.empty)) = (None, ?fs1)"
    using example_makedirs by (simp only: example_job_path)
  have op: "open_w ?fs1 (job_path example_app ''j1'') = (None, ?fs2)"
    using example_open_w by (simp only: example_job_path)
  from job_truthy_result_file [OF t d mk op]
  have "async_target example_app ''j1'' (Returns (PInt 7)) Map.empty
              = (None, write_text ?fs2 (job_path example_app ''j1'') ?doc)
            \<and> read_text (write_text ?fs2 (job_path example_app ''j1'') ?doc)
                 (job_path example_app ''j1'') = Some ?doc"
    unfolding Let_def by blast
  then have "fst (async_target example_app ''j1'' (Returns (PInt 7)) Map.empty) = None
    \<and> read_text (snd (async_target example_app ''j1'' (Returns (PInt 7)) Map.empty))
        ''/s/./temp/j1.json'' = Some ?doc"
    by (simp add: example_job_path)
  then show ?thesis
    using t d example_job_path by blast
qed

text \<open>
  Claim C6 as it is stated fails for a result that is not truthy, here the integer 0:
  the guard \<open>data.get('data') or data.get('error')\<close> is false, nothing is written, and no
  file exists at the job's path.
\<close>

theorem job_falsy_result_no_file:
  "json_dumps (PDict [(PStr ''status'', PStr ''complete''), (PStr ''data'', PInt 0)])
     = Inr (''{'' @ encode_str ''status'' @ '': '' @ encode_str ''complete'' @ '', ''
              @ encode_str ''data'' @ '': 0}'')
   \<and> async_target example_app ''j1'' (Returns (PInt 0)) Map.empty = (None, Map.empty)
   \<and> read_text (snd (async_target example_app ''j1'' (Returns (PInt 0)) Map.empty))
        (job_path example_app ''j1'') = None"
proof -
  have a: "async_target example_app ''j1'' (Returns (PInt 0)) Map.empty = (None, Map.empty)"
    by (simp add: async_target_def job_data_def)
  have d: "json_dumps (PDict [(PStr ''status'', PStr ''complete''), (PStr ''data'', PInt 0)])
     = Inr (''{'' @ encode_str ''status'' @ '': '' @ encode_str ''complete'' @ '', ''
              @ encode_str ''data'' @ '': 0}'')"
    by (simp add: json_dumps_def int_str_0)
  have n: "read_text Map.empty (job_path example_app ''j1'') = None"
    by (simp add: example_job_path read_text_def lookup_def example_resolve)
  show ?thesis using a d n by simp
qed

section \<open>Decoding what the encoder wrote\<close>

subsection \<open>Integers\<close>













subsection \<open>Strings\<close>










subsection \<open>Words, white space and the first character of a value\<close>



lemma skip_ws_delimiter [simp]:
  "skip_ws (CHR '','' # t) = CHR '','' # t"
  "skip_ws (CHR '']'' # t) = CHR '']'' # t"
  "skip_ws (CHR ''}'' # t) = CHR ''}'' # t"
  "skip_ws (CHR '':'' # t) = CHR '':'' # t"
  "skip_ws [] = []"
  by (simp_all add: skip_ws_def is_ws_def)


lemma parse_atom_words:
  "parse_atom (''null'' @ rest) = Some (PNone, rest)"
  "parse_atom (''true'' @ rest) = Some (PBool True, rest)"
  "parse_atom (''false'' @ rest) = Some (PBool False, rest)"
  by (simp_all add: parse_atom_def match_word_def)





subsection \<open>Arrays and objects, one step at a time\<close>













subsection \<open>Every native value is read back\<close>






section \<open>The response body read back\<close>




end
